theory Spec2Isabelle
  imports Complex_Main
begin

section \<open>Values of the program\<close>

text \<open>
  The program is one Python script, \<^verbatim>\<open>timelapse-recorder.py\<close>. A Python string
  is the list of its code points. Python floats are the datatype \<open>pyfloat\<close>: a finite
  value, the two infinities, or NaN; the float operations of the script are the
  comparison \<^verbatim>\<open>x <= 0\<close> and \<^verbatim>\<open>time.sleep\<close>.
\<close>

type_synonym pystr = "nat list"

text \<open>A literal of the script, as a Python string.\<close>

definition py :: "string \<Rightarrow> pystr" where
  "py lit = map of_char lit"

datatype pyfloat = Fin real | PInf | NInf | NaN

text \<open>\<^verbatim>\<open>x <= 0\<close> on a float: false for NaN and for plus infinity.\<close>

fun le_zero :: "pyfloat \<Rightarrow> bool" where
  "le_zero (Fin r) = (r \<le> 0)"
| "le_zero PInf = False"
| "le_zero NInf = True"
| "le_zero NaN = False"

datatype platform = Win32 | Darwin | Linux

type_synonym hwnd = int

text \<open>The dict with keys \<^verbatim>\<open>left, top, width, height\<close> that \<^verbatim>\<open>mss\<close> grabs.\<close>

record rect =
  rect_left :: int
  rect_top :: int
  rect_width :: int
  rect_height :: int

text \<open>A numpy image: \<^verbatim>\<open>shape[0]\<close> rows, \<^verbatim>\<open>shape[1]\<close> columns, \<^verbatim>\<open>shape[2]\<close> channels.\<close>

record image =
  shape0 :: nat
  shape1 :: nat
  shape2 :: nat

text \<open>The exceptions that the calls of the script raise.\<close>

datatype exn =
    Win32Error
  | ScreenShotError
  | Cv2Error
  | ValueError
  | OverflowError
  | OSError
  | UnicodeEncodeError

subsection \<open>String operations of Python used by the script\<close>

definition LF :: nat where
  "LF = 10"

definition CR :: nat where
  "CR = 13"

text \<open>The code point of \<^verbatim>\<open>=\<close>.\<close>

definition EQ :: nat where
  "EQ = 61"

text \<open>
  \<^verbatim>\<open>str.isspace\<close> on one character, which is what \<^verbatim>\<open>strip()\<close> removes: the ASCII
  controls 9 to 13 and 28 to 31, the space, U+0085, U+00A0, U+1680, U+2000 to U+200A,
  U+2028, U+2029, U+202F, U+205F and U+3000.
\<close>

definition isspace :: "nat \<Rightarrow> bool" where
  "isspace c =
     ((9 \<le> c \<and> c \<le> 13) \<or> (28 \<le> c \<and> c \<le> 32) \<or> c = 133 \<or> c = 160 \<or> c = 5760 \<or>
      (8192 \<le> c \<and> c \<le> 8202) \<or> c = 8232 \<or> c = 8233 \<or> c = 8239 \<or> c = 8287 \<or>
      c = 12288)"

text \<open>\<^verbatim>\<open>s.strip()\<close>: drop leading and trailing whitespace.\<close>

definition strip :: "pystr \<Rightarrow> pystr" where
  "strip s = rev (dropWhile isspace (rev (dropWhile isspace s)))"

text \<open>\<^verbatim>\<open>s.split(sep)\<close> for a one-character separator: never the empty list.\<close>

fun split_char :: "nat \<Rightarrow> pystr \<Rightarrow> pystr list" where
  "split_char sep [] = [[]]"
| "split_char sep (c # cs) =
     (if c = sep then [] # split_char sep cs
      else (case split_char sep cs of
              [] \<Rightarrow> [[c]]
            | l # ls \<Rightarrow> (c # l) # ls))"

text \<open>\<^verbatim>\<open>line.split('=', 1)\<close> on a line that contains \<^verbatim>\<open>=\<close>: the text before the
  first \<^verbatim>\<open>=\<close> and the text after it.\<close>

definition split_eq1 :: "pystr \<Rightarrow> pystr \<times> pystr" where
  "split_eq1 line =
     (takeWhile (\<lambda>c. c \<noteq> EQ) line, tl (dropWhile (\<lambda>c. c \<noteq> EQ) line))"

definition endswith :: "pystr \<Rightarrow> pystr \<Rightarrow> bool" where
  "endswith s suf = (length suf \<le> length s \<and> drop (length s - length suf) s = suf)"

subsection \<open>Text files\<close>

text \<open>
  \<^verbatim>\<open>Path.write_text\<close> and \<^verbatim>\<open>Path.read_text\<close> open the file in text mode. Writing
  translates each line feed to the platform's line separator; reading translates
  \<^verbatim>\<open>\r\n\<close> and a lone \<^verbatim>\<open>\r\<close> to a line feed (universal newlines).
\<close>

fun write_newlines :: "platform \<Rightarrow> pystr \<Rightarrow> pystr" where
  "write_newlines p [] = []"
| "write_newlines p (c # cs) =
     (if c = LF \<and> p = Win32 then CR # LF # write_newlines p cs
      else c # write_newlines p cs)"

fun read_newlines :: "pystr \<Rightarrow> pystr" where
  "read_newlines [] = []"
| "read_newlines [c] = (if c = CR then [LF] else [c])"
| "read_newlines (c # d # cs) =
     (if c = CR \<and> d = LF then LF # read_newlines cs
      else if c = CR then LF # read_newlines (d # cs)
      else c # read_newlines (d # cs))"

section \<open>The environment and the state\<close>

text \<open>
  Everything the script asks of the operating system and of its libraries is a field
  of the environment. A call that can raise returns \<^term>\<open>None\<close>, or the exception on
  the left of a sum. The queries of the capture task are indexed by the tick at which
  they are made (tick 0 is the initialisation, tick \<open>n + 1\<close> the \<open>n\<close>-th pass of the
  loop), since a window moves and the screen changes between ticks.

  \<^item> \<open>py_float\<close> is \<^verbatim>\<open>float\<close> on a string, \<open>float_str\<close> the formatting of a float in
    an f-string, \<open>str_lower\<close> is \<^verbatim>\<open>str.lower\<close>;
  \<^item> \<open>Path\<close> is the text of \<^verbatim>\<open>Path(s)\<close>, \<open>resolve\<close> is \<^verbatim>\<open>Path.resolve\<close>, \<open>joinpath\<close> is
    the operator \<^verbatim>\<open>/\<close>;
  \<^item> \<open>config_writable\<close> says whether \<^verbatim>\<open>config.txt\<close> can be opened for writing, and
    \<open>encodable\<close> which code points the locale's encoding can write;
  \<^item> \<open>sleep_max\<close> is the longest time, in seconds, that \<^verbatim>\<open>time.sleep\<close> converts;
  \<^item> \<open>cvt_channels\<close> says which channel counts the installed OpenCV converts from
    BGRA to BGR.
\<close>

record env =
  platform :: platform
  SCRIPT_DIR :: pystr
  py_float :: "pystr \<Rightarrow> pyfloat option"
  float_str :: "pyfloat \<Rightarrow> pystr"
  str_lower :: "pystr \<Rightarrow> pystr"
  Path :: "pystr \<Rightarrow> pystr"
  resolve :: "pystr \<Rightarrow> exn + pystr"
  joinpath :: "pystr \<Rightarrow> pystr \<Rightarrow> pystr"
  now_stamp :: pystr
  config_writable :: bool
  encodable :: "nat \<Rightarrow> bool"
  EnumWindows :: "(hwnd \<times> bool \<times> pystr) list"
  GetWindowRect :: "nat \<Rightarrow> hwnd \<Rightarrow> (int \<times> int \<times> int \<times> int) option"
  monitors1 :: rect
  grab :: "nat \<Rightarrow> rect \<Rightarrow> image option"
  cvt_channels :: "nat \<Rightarrow> bool"
  encoder_opens :: "string \<Rightarrow> pystr \<Rightarrow> pyfloat \<Rightarrow> nat \<times> nat \<Rightarrow> bool"
  sleep_max :: real

section \<open>The configuration store\<close>

text \<open>The dict that \<^verbatim>\<open>load_config\<close> returns.\<close>

record config =
  cfg_path :: pystr
  cfg_fps :: pyfloat
  cfg_interval :: pyfloat
  cfg_window :: pystr

definition defaults :: "env \<Rightarrow> config" where
  "defaults e = \<lparr>cfg_path = SCRIPT_DIR e, cfg_fps = Fin 30, cfg_interval = Fin 1,
     cfg_window = py ''Entire Screen''\<rparr>"

text \<open>The loop over the lines: a line with \<^verbatim>\<open>=\<close> sets its stripped key to its
  stripped value; a later line overwrites an earlier one.\<close>

fun parse_lines :: "pystr list \<Rightarrow> (pystr \<rightharpoonup> pystr) \<Rightarrow> (pystr \<rightharpoonup> pystr)" where
  "parse_lines [] cfg = cfg"
| "parse_lines (line # lines) cfg =
     (if EQ \<in> set line
      then (case split_eq1 line of
              (key, val) \<Rightarrow> parse_lines lines (cfg(strip key \<mapsto> strip val)))
      else parse_lines lines cfg)"

text \<open>
  \<^verbatim>\<open>load_config\<close>: the argument is the text of the configuration file as stored,
  \<^term>\<open>None\<close> when the file does not exist. A \<^verbatim>\<open>float\<close> that raises is caught by the
  bare \<^verbatim>\<open>except\<close> and the defaults are returned.
\<close>

definition load_config :: "env \<Rightarrow> pystr option \<Rightarrow> config" where
  "load_config e file =
     (case file of
        None \<Rightarrow> defaults e
      | Some stored \<Rightarrow>
          (let lines = split_char LF (strip (read_newlines stored));
               cfg = parse_lines lines Map.empty;
               fps = (case cfg (py ''fps'') of None \<Rightarrow> Some (Fin 30) | Some v \<Rightarrow> py_float e v);
               interval =
                 (case cfg (py ''interval'') of None \<Rightarrow> Some (Fin 1) | Some v \<Rightarrow> py_float e v)
           in case fps of
                None \<Rightarrow> defaults e
              | Some f \<Rightarrow>
                  (case interval of
                     None \<Rightarrow> defaults e
                   | Some i \<Rightarrow>
                       \<lparr>cfg_path =
                          Path e (case cfg (py ''path'') of None \<Rightarrow> SCRIPT_DIR e | Some v \<Rightarrow> v),
                        cfg_fps = f, cfg_interval = i,
                        cfg_window =
                          (case cfg (py ''window'') of
                             None \<Rightarrow> py ''Entire Screen'' | Some v \<Rightarrow> v)\<rparr>)))"

text \<open>The text that \<^verbatim>\<open>save_config\<close> formats.\<close>

definition config_text :: "env \<Rightarrow> pystr \<Rightarrow> pyfloat \<Rightarrow> pyfloat \<Rightarrow> pystr \<Rightarrow> pystr" where
  "config_text e path fps interval window =
     py ''path='' @ path @ [LF] @ py ''fps='' @ float_str e fps @ [LF]
       @ py ''interval='' @ float_str e interval @ [LF] @ py ''window='' @ window"

text \<open>
  \<^verbatim>\<open>CONFIG_FILE.write_text(data)\<close> over the old content of the file: the exception it
  raises, if any, and the content it leaves. Opening an unwritable file raises and
  leaves the file as it was. Opening for writing truncates the file; the text is then
  encoded as a whole, and a code point that the locale's encoding lacks raises with
  nothing written.
\<close>

definition Path_write_text :: "env \<Rightarrow> pystr option \<Rightarrow> pystr \<Rightarrow> exn option \<times> pystr option" where
  "Path_write_text e old data =
     (if \<not> config_writable e then (Some OSError, old)
      else if list_all (encodable e) (write_newlines (platform e) data)
      then (None, Some (write_newlines (platform e) data))
      else (Some UnicodeEncodeError, Some []))"

definition save_config ::
  "env \<Rightarrow> pystr option \<Rightarrow> pystr \<Rightarrow> pyfloat \<Rightarrow> pyfloat \<Rightarrow> pystr \<Rightarrow> exn option \<times> pystr option" where
  "save_config e old path fps interval window =
     Path_write_text e old (config_text e path fps interval window)"

section \<open>The recorder\<close>

subsection \<open>Shared state, effects and the encoder\<close>

datatype wstate = normal | disabled | readonly

text \<open>The calls with an effect outside the program, in the order they are made.
  \<open>callback_exception\<close> is an exception that leaves \<^verbatim>\<open>start_recording\<close>: Tk reports
  it on the error stream and goes on.\<close>

datatype effect =
    showerror pystr pystr
  | showinfo pystr pystr
  | write_text pystr
  | callback_exception exn
  | thread_start
  | grab_call rect
  | VideoWriter_call string pystr pyfloat nat nat
  | write_frame image
  | sleep pyfloat
  | release

text \<open>
  The globals \<^verbatim>\<open>recording\<close>, \<^verbatim>\<open>selected_window\<close> and \<^verbatim>\<open>output_folder\<close>, the content
  of the entry widgets and of the combobox, the state of the four widgets that the
  script enables and disables, the configuration file, and the trace of effects.
\<close>

record state =
  recording :: bool
  selected_window :: "hwnd option"
  output_folder :: pystr
  path_entry :: pystr
  fps_entry :: pystr
  interval_entry :: pystr
  filename_entry :: pystr
  window_combo :: pystr
  start_button :: wstate
  stop_button :: wstate
  window_combo_state :: wstate
  refresh_button :: wstate
  CONFIG_FILE :: "pystr option"
  trace :: "effect list"

text \<open>
  A \<^verbatim>\<open>cv2.VideoWriter\<close>: the arguments it was constructed with, whether it is open,
  and the frames it has taken. Whether a codec opens the sink is the environment's
  \<^term>\<open>encoder_opens\<close>; \<^verbatim>\<open>write\<close> on a writer that is not open does nothing.
\<close>

record writer =
  vw_filename :: pystr
  vw_fourcc :: string
  vw_fps :: pyfloat
  vw_frameSize :: "nat \<times> nat"
  isOpened :: bool
  frames :: "image list"

definition VideoWriter :: "env \<Rightarrow> pystr \<Rightarrow> string \<Rightarrow> pyfloat \<Rightarrow> nat \<times> nat \<Rightarrow> writer" where
  "VideoWriter e filename fourcc rate frameSize =
     \<lparr>vw_filename = filename, vw_fourcc = fourcc, vw_fps = rate, vw_frameSize = frameSize,
      isOpened = encoder_opens e fourcc filename rate frameSize, frames = []\<rparr>"

definition writer_write :: "writer \<Rightarrow> image \<Rightarrow> writer" where
  "writer_write w img = (if isOpened w then w\<lparr>frames := frames w @ [img]\<rparr> else w)"

definition writer_release :: "writer \<Rightarrow> writer" where
  "writer_release w = w\<lparr>isOpened := False\<rparr>"

text \<open>\<^verbatim>\<open>cv2.cvtColor(img, cv2.COLOR_BGRA2BGR)\<close>: raises on an empty image and on a
  channel count that the installed OpenCV does not convert; three channels out.\<close>

definition cvtColor_BGRA2BGR :: "env \<Rightarrow> image \<Rightarrow> exn + image" where
  "cvtColor_BGRA2BGR e img =
     (if shape0 img = 0 \<or> shape1 img = 0 \<or> \<not> cvt_channels e (shape2 img) then Inl Cv2Error
      else Inr (img\<lparr>shape2 := 3\<rparr>))"

text \<open>\<^verbatim>\<open>cv2.resize(img, (width, height))\<close>: raises on an empty source or target.\<close>

definition resize :: "image \<Rightarrow> nat \<times> nat \<Rightarrow> exn + image" where
  "resize img dsize =
     (case dsize of (w, h) \<Rightarrow>
        if shape0 img = 0 \<or> shape1 img = 0 \<or> w = 0 \<or> h = 0 then Inl Cv2Error
        else Inr (img\<lparr>shape0 := h, shape1 := w\<rparr>))"

subsection \<open>Windows\<close>

definition get_window_list :: "env \<Rightarrow> (pystr \<times> hwnd option) list" where
  "get_window_list e =
     ((py ''Entire Screen''), None) #
       (if platform e = Win32
        then map (\<lambda>(h, visible, title). (title, Some h))
               (filter (\<lambda>(h, visible, title). visible \<and> title \<noteq> []) (EnumWindows e))
        else [])"

text \<open>The loop of \<^verbatim>\<open>start_recording\<close> over the window list: the first entry with
  the selected name gives the handle; no entry leaves \<^verbatim>\<open>None\<close>.\<close>

fun find_window :: "pystr \<Rightarrow> (pystr \<times> hwnd option) list \<Rightarrow> hwnd option" where
  "find_window window_name [] = None"
| "find_window window_name ((name, h) # windows) =
     (if name = window_name then h else find_window window_name windows)"

text \<open>\<^verbatim>\<open>get_window_rect\<close> at tick \<open>n\<close>: \<^verbatim>\<open>win32gui.GetWindowRect\<close> raises for a handle
  that is no window; off Windows the function returns \<^verbatim>\<open>None\<close>.\<close>

definition get_window_rect :: "env \<Rightarrow> nat \<Rightarrow> hwnd \<Rightarrow> exn + rect option" where
  "get_window_rect e n h =
     (if platform e = Win32
      then (case GetWindowRect e n h of
              None \<Rightarrow> Inl Win32Error
            | Some (x0, y0, x1, y1) \<Rightarrow>
                Inr (Some \<lparr>rect_left = x0, rect_top = y0, rect_width = x1 - x0,
                          rect_height = y1 - y0\<rparr>))
      else Inr None)"

subsection \<open>The capture task\<close>

text \<open>The variables of \<^verbatim>\<open>start_recording\<close> that the closure \<^verbatim>\<open>record\<close> reads.\<close>

record closure =
  t_fps :: pyfloat
  t_interval :: pyfloat
  t_save_file :: pystr
  t_window_name :: pystr

text \<open>The local variables of \<^verbatim>\<open>record\<close> once the encoder exists; \<^term>\<open>tick\<close> counts
  the passes of the loop.\<close>

record locals =
  monitor :: rect
  width :: nat
  height :: nat
  out :: writer
  tick :: nat

text \<open>
  Where the task stands. \<open>Top\<close> is the test of \<^verbatim>\<open>while recording\<close>, \<open>Body\<close> the
  grab-encode step, \<open>Sleeping\<close> the \<^verbatim>\<open>time.sleep\<close>, \<open>Finishing\<close> the code after the
  loop. \<open>Returned\<close> is the early \<^verbatim>\<open>return\<close>; \<open>Crashed\<close> is an exception that nothing
  catches, with the locals the task had (none before the encoder exists).
\<close>

datatype phase = Top | Body | Sleeping | Finishing

datatype thread =
    Spawned
  | Running phase locals
  | Done locals
  | Returned
  | Crashed exn "locals option"

fun locals_of :: "thread \<Rightarrow> locals option" where
  "locals_of Spawned = None"
| "locals_of (Running ph l) = Some l"
| "locals_of (Done l) = Some l"
| "locals_of Returned = None"
| "locals_of (Crashed x lo) = lo"

definition emit :: "state \<Rightarrow> effect list \<Rightarrow> state" where
  "emit s effs = s\<lparr>trace := trace s @ effs\<rparr>"

text \<open>The four \<^verbatim>\<open>config(state=...)\<close> calls that give the controls back.\<close>

definition enable_controls :: "state \<Rightarrow> state" where
  "enable_controls s =
     s\<lparr>start_button := normal, stop_button := disabled, window_combo_state := normal,
       refresh_button := normal\<rparr>"

text \<open>Truth value of \<^verbatim>\<open>selected_window\<close>: \<^verbatim>\<open>None\<close> and the handle 0 are false.\<close>

definition truthy :: "hwnd option \<Rightarrow> bool" where
  "truthy sel = (case sel of None \<Rightarrow> False | Some h \<Rightarrow> h \<noteq> 0)"

text \<open>
  Lines 177 to 195: the region to capture. The geometry query is an argument, so that
  the code is also described for a query that returns \<^verbatim>\<open>None\<close>; the task calls it
  with \<^term>\<open>get_window_rect\<close>.
\<close>

datatype region = Region rect | NoRect | Raised exn

definition determine_region :: "(hwnd \<Rightarrow> exn + rect option) \<Rightarrow> env \<Rightarrow> state \<Rightarrow> region" where
  "determine_region query e s =
     (case selected_window s of
        None \<Rightarrow> Region (monitors1 e)
      | Some h \<Rightarrow>
          if platform e = Win32
          then (case query h of
                  Inl x \<Rightarrow> Raised x
                | Inr None \<Rightarrow> NoRect
                | Inr (Some r) \<Rightarrow> Region r)
          else Region (monitors1 e))"

text \<open>Lines 202 to 208: the preferred encoder, then the fallback; with the calls made.\<close>

definition open_encoder :: "env \<Rightarrow> pystr \<Rightarrow> pyfloat \<Rightarrow> nat \<times> nat \<Rightarrow> writer \<times> effect list" where
  "open_encoder e save_file rate frameSize =
     (let out1 = VideoWriter e save_file ''avc1'' rate frameSize;
          call1 = VideoWriter_call ''avc1'' save_file rate (fst frameSize) (snd frameSize)
      in if \<not> isOpened out1
         then (VideoWriter e save_file ''mp4v'' rate frameSize,
               [call1, VideoWriter_call ''mp4v'' save_file rate (fst frameSize) (snd frameSize)])
         else (out1, [call1]))"

definition started_message :: "state \<Rightarrow> closure \<Rightarrow> pystr" where
  "started_message s c =
     (py ''Recording'')
       @ (if truthy (selected_window s) then (py '' ('') @ t_window_name c @ (py '')'')
          else (py '' (Entire Screen)''))
       @ [LF] @ (py ''Saving to:'') @ [LF] @ t_save_file c"

text \<open>The message of line 231; its first character is the check mark U+2705.\<close>

definition finished_message :: "closure \<Rightarrow> pystr" where
  "finished_message c =
     [0x2705] @ (py '' Timelapse saved to:'') @ [LF] @ t_save_file c"

text \<open>Lines 176 to 211: from the start of \<^verbatim>\<open>record\<close> to the loop.\<close>

definition record_init ::
  "(hwnd \<Rightarrow> exn + rect option) \<Rightarrow> env \<Rightarrow> state \<Rightarrow> closure \<Rightarrow> state \<times> thread" where
  "record_init query e s c =
     (case determine_region query e s of
        Raised x \<Rightarrow> (s, Crashed x None)
      | NoRect \<Rightarrow>
          (enable_controls
             ((emit s [showerror (py ''Error'') (py ''Could not get window dimensions'')])
                \<lparr>recording := False\<rparr>),
           Returned)
      | Region mon \<Rightarrow>
          (case grab e 0 mon of
             None \<Rightarrow> (emit s [grab_call mon], Crashed ScreenShotError None)
           | Some frame \<Rightarrow>
               (let h = shape0 frame; w = shape1 frame;
                    (wr, calls) = open_encoder e (t_save_file c) (t_fps c) (w, h)
                in (emit s ([grab_call mon] @ calls
                       @ [showinfo (py ''Recording Started'') (started_message s c)]),
                    Running Top \<lparr>monitor = mon, width = w, height = h, out = wr, tick = 0\<rparr>))))"

text \<open>Lines 214 to 218: the region of this pass.\<close>

definition update_monitor ::
  "(hwnd \<Rightarrow> exn + rect option) \<Rightarrow> env \<Rightarrow> state \<Rightarrow> rect \<Rightarrow> exn + rect" where
  "update_monitor query e s mon =
     (case selected_window s of
        None \<Rightarrow> Inr mon
      | Some h \<Rightarrow>
          if platform e = Win32
          then (case query h of
                  Inl x \<Rightarrow> Inl x
                | Inr None \<Rightarrow> Inr mon
                | Inr (Some r) \<Rightarrow> Inr r)
          else Inr mon)"

text \<open>Lines 221 to 225: the colour conversion and the resize to the initial size.\<close>

definition normalize :: "env \<Rightarrow> image \<Rightarrow> nat \<Rightarrow> nat \<Rightarrow> exn + image" where
  "normalize e img0 w h =
     (case cvtColor_BGRA2BGR e img0 of
        Inl x \<Rightarrow> Inl x
      | Inr img \<Rightarrow>
          if shape1 img \<noteq> w \<or> shape0 img \<noteq> h then resize img (w, h) else Inr img)"

text \<open>Lines 214 to 227: one grab-encode step.\<close>

definition loop_body ::
  "(hwnd \<Rightarrow> exn + rect option) \<Rightarrow> env \<Rightarrow> state \<Rightarrow> locals \<Rightarrow> state \<times> thread" where
  "loop_body query e s l =
     (case update_monitor query e s (monitor l) of
        Inl x \<Rightarrow> (s, Crashed x (Some l))
      | Inr mon \<Rightarrow>
          (case grab e (Suc (tick l)) mon of
             None \<Rightarrow> (emit s [grab_call mon], Crashed ScreenShotError (Some (l\<lparr>monitor := mon\<rparr>)))
           | Some img0 \<Rightarrow>
               (case normalize e img0 (width l) (height l) of
                  Inl x \<Rightarrow> (emit s [grab_call mon], Crashed x (Some (l\<lparr>monitor := mon\<rparr>)))
                | Inr img \<Rightarrow>
                    (emit s [grab_call mon, write_frame img],
                     Running Sleeping (l\<lparr>monitor := mon, out := writer_write (out l) img\<rparr>)))))"

text \<open>Lines 230 to 236: after the loop.\<close>

definition finish :: "state \<Rightarrow> closure \<Rightarrow> locals \<Rightarrow> state \<times> thread" where
  "finish s c l =
     (enable_controls (emit s [release, showinfo (py ''Recording Finished'') (finished_message c)]),
      Done (l\<lparr>out := writer_release (out l)\<rparr>))"

text \<open>
  \<^verbatim>\<open>time.sleep(d)\<close>: the exception it raises, if any. NaN is a \<^verbatim>\<open>ValueError\<close>; a time
  too large to convert, infinite or finite, is an \<^verbatim>\<open>OverflowError\<close>; a negative time
  is a \<^verbatim>\<open>ValueError\<close>.
\<close>

fun time_sleep :: "env \<Rightarrow> pyfloat \<Rightarrow> exn option" where
  "time_sleep e NaN = Some ValueError"
| "time_sleep e PInf = Some OverflowError"
| "time_sleep e NInf = Some OverflowError"
| "time_sleep e (Fin r) =
     (if sleep_max e < \<bar>r\<bar> then Some OverflowError
      else if r < 0 then Some ValueError
      else None)"

text \<open>One step of the capture task. An exception in the loop ends the task where it
  stands: \<^verbatim>\<open>out.release()\<close> and the code after it are not reached.\<close>

fun thread_step :: "env \<Rightarrow> closure \<Rightarrow> state \<Rightarrow> thread \<Rightarrow> state \<times> thread" where
  "thread_step e c s Spawned = record_init (get_window_rect e 0) e s c"
| "thread_step e c s (Running Top l) =
     (if recording s then (s, Running Body l) else (s, Running Finishing l))"
| "thread_step e c s (Running Body l) = loop_body (get_window_rect e (Suc (tick l))) e s l"
| "thread_step e c s (Running Sleeping l) =
     (case time_sleep e (t_interval c) of
        Some x \<Rightarrow> (s, Crashed x (Some l))
      | None \<Rightarrow> (emit s [sleep (t_interval c)], Running Top (l\<lparr>tick := Suc (tick l)\<rparr>)))"
| "thread_step e c s (Running Finishing l) = finish s c l"
| "thread_step e c s (Done l) = (s, Done l)"
| "thread_step e c s Returned = (s, Returned)"
| "thread_step e c s (Crashed x lo) = (s, Crashed x lo)"

subsection \<open>The commands of the user interface\<close>

definition stop_recording :: "state \<Rightarrow> state" where
  "stop_recording s = s\<lparr>recording := False\<rparr>"

text \<open>
  \<^verbatim>\<open>start_recording\<close>: the new state and the closure of the task it starts, if any.
  Lines 162 and 163 are outside any \<^verbatim>\<open>try\<close>: when \<^verbatim>\<open>resolve\<close> or \<^verbatim>\<open>save_config\<close>
  raises, the exception leaves the function after \<^verbatim>\<open>selected_window\<close> was assigned and
  before the flag is set.
\<close>

definition start_recording :: "env \<Rightarrow> state \<Rightarrow> state \<times> closure option" where
  "start_recording e s =
     (if recording s then (s, None)
      else
        (case py_float e (fps_entry s) of
           None \<Rightarrow> (emit s [showerror (py ''Error'') (py ''Invalid numeric input'')], None)
         | Some rate \<Rightarrow>
             (case py_float e (interval_entry s) of
                None \<Rightarrow> (emit s [showerror (py ''Error'') (py ''Invalid numeric input'')], None)
              | Some period \<Rightarrow>
                  (let filename0 =
                         (if strip (filename_entry s) \<noteq> [] then strip (filename_entry s)
                          else py ''timelapse_'' @ now_stamp e @ py ''.mp4'')
                   in if le_zero rate \<or> le_zero period
                      then (emit s [showerror (py ''Error'') (py ''FPS and Interval must be > 0'')],
                            None)
                      else
                        (let filename =
                               (if \<not> endswith (str_lower e filename0) (py ''.mp4'')
                                then filename0 @ py ''.mp4'' else filename0);
                             window_name = window_combo s;
                             windows = get_window_list e;
                             sel = find_window window_name windows
                         in case resolve e (Path e (path_entry s)) of
                              Inl x \<Rightarrow>
                                (emit (s\<lparr>selected_window := sel\<rparr>) [callback_exception x], None)
                            | Inr chosen_path \<Rightarrow>
                                (let cfg_text = config_text e chosen_path rate period window_name
                                 in case save_config e (CONFIG_FILE s) chosen_path rate period
                                           window_name of
                                      (Some x, file) \<Rightarrow>
                                        (emit (s\<lparr>selected_window := sel, CONFIG_FILE := file\<rparr>)
                                           [write_text cfg_text, callback_exception x],
                                         None)
                                    | (None, file) \<Rightarrow>
                                        (emit (s\<lparr>selected_window := sel,
                                                 CONFIG_FILE := file,
                                                 output_folder := chosen_path,
                                                 recording := True,
                                                 start_button := disabled,
                                                 stop_button := normal,
                                                 window_combo_state := disabled,
                                                 refresh_button := disabled\<rparr>)
                                           [write_text cfg_text, thread_start],
                                         Some \<lparr>t_fps = rate, t_interval = period,
                                               t_save_file = joinpath e chosen_path filename,
                                               t_window_name = window_name\<rparr>)))))))"

subsection \<open>The user interface and the task, interleaved\<close>

text \<open>
  The interface thread and the capture task share the state. A schedule is a list of
  events: a step of the task, or the stop command.
\<close>

datatype event = task_step | ui_stop

fun sys_step :: "env \<Rightarrow> closure \<Rightarrow> state \<times> thread \<Rightarrow> event \<Rightarrow> state \<times> thread" where
  "sys_step e c (s, t) task_step = thread_step e c s t"
| "sys_step e c (s, t) ui_stop = (stop_recording s, t)"

definition run :: "env \<Rightarrow> closure \<Rightarrow> event list \<Rightarrow> state \<times> thread \<Rightarrow> state \<times> thread" where
  "run e c evs st = foldl (sys_step e c) st evs"


subsection \<open>Reading a trace\<close>

text \<open>The (width, height) of each frame handed to \<^verbatim>\<open>out.write\<close>, in order.\<close>

fun written :: "effect \<Rightarrow> (nat \<times> nat) list" where
  "written (write_frame img) = [(shape1 img, shape0 img)]"
| "written x = []"

definition frame_sizes :: "effect list \<Rightarrow> (nat \<times> nat) list" where
  "frame_sizes tr = concat (map written tr)"

text \<open>The (codec, path, frame rate, width, height) of each encoder constructed.\<close>

fun encoder_call :: "effect \<Rightarrow> (string \<times> pystr \<times> pyfloat \<times> nat \<times> nat) list" where
  "encoder_call (VideoWriter_call fourcc filename rate w h) = [(fourcc, filename, rate, w, h)]"
| "encoder_call x = []"

definition encoder_calls ::
  "effect list \<Rightarrow> (string \<times> pystr \<times> pyfloat \<times> nat \<times> nat) list" where
  "encoder_calls tr = concat (map encoder_call tr)"

fun is_error :: "effect \<Rightarrow> bool" where
  "is_error (showerror title msg) = True"
| "is_error x = False"

definition errors :: "effect list \<Rightarrow> effect list" where
  "errors tr = filter is_error tr"

fun is_sleep :: "effect \<Rightarrow> bool" where
  "is_sleep (sleep d) = True"
| "is_sleep x = False"

definition sleeps :: "effect list \<Rightarrow> nat" where
  "sleeps tr = length (filter is_sleep tr)"

definition releases :: "effect list \<Rightarrow> nat" where
  "releases tr = length (filter (\<lambda>x. x = release) tr)"

text \<open>The (width, height) of each region handed to \<^verbatim>\<open>sct.grab\<close>, in order.\<close>

fun grabbed :: "effect \<Rightarrow> (int \<times> int) list" where
  "grabbed (grab_call r) = [(rect_width r, rect_height r)]"
| "grabbed x = []"

definition grab_sizes :: "effect list \<Rightarrow> (int \<times> int) list" where
  "grab_sizes tr = concat (map grabbed tr)"

text \<open>How many steps of the task lie between a phase of the loop with the flag
  cleared and the end of the task, and how many frames and sleeps they can hold.\<close>

fun steps_left :: "phase \<Rightarrow> nat" where
  "steps_left Body = 4"
| "steps_left Sleeping = 3"
| "steps_left Top = 2"
| "steps_left Finishing = 1"

fun frames_left :: "phase \<Rightarrow> nat" where
  "frames_left Body = 1"
| "frames_left ph = 0"

fun sleeps_left :: "phase \<Rightarrow> nat" where
  "sleeps_left Body = 1"
| "sleeps_left Sleeping = 1"
| "sleeps_left ph = 0"

definition task_steps :: "event list \<Rightarrow> nat" where
  "task_steps evs = length (filter (\<lambda>ev. ev = task_step) evs)"

subsection \<open>A concrete machine\<close>

text \<open>
  An environment and a state to run the model on: a Windows host with one visible
  window, \<open>Notepad\<close> with handle 101, which is 800 by 600 at ticks 0 and 1 and 640 by
  480 from tick 2 on; a 1920 by 1080 display; both codecs available; a writable
  configuration file in the encoding cp1252. The float functions are the fragment of
  \<^verbatim>\<open>float\<close> and of float formatting on the literals used here, and the lowering is that
  of ASCII.
\<close>

definition demo_float :: "pystr \<Rightarrow> pyfloat option" where
  "demo_float v =
     (if strip v = py ''30.0'' then Some (Fin 30)
      else if strip v = py ''2.0'' then Some (Fin 2)
      else if strip v = py ''5.0'' then Some (Fin 5)
      else if strip v = py ''0'' then Some (Fin 0)
      else if strip v = py ''nan'' then Some NaN
      else None)"

definition demo_float_str :: "pyfloat \<Rightarrow> pystr" where
  "demo_float_str x =
     (if x = Fin 30 then py ''30.0''
      else if x = Fin 2 then py ''2.0''
      else if x = Fin 5 then py ''5.0''
      else if x = Fin 0 then py ''0.0''
      else py ''nan'')"

definition demo_lower :: "pystr \<Rightarrow> pystr" where
  "demo_lower v = map (\<lambda>c. if 65 \<le> c \<and> c \<le> 90 then c + 32 else c) v"

text \<open>The code points that cp1252 encodes: ASCII, U+00A0 to U+00FF, and the 27
  characters it places between 0x80 and 0x9F.\<close>

definition cp1252 :: "nat \<Rightarrow> bool" where
  "cp1252 c =
     (c < 128 \<or> (160 \<le> c \<and> c < 256) \<or>
      c \<in> set [0x20AC, 0x201A, 0x0192, 0x201E, 0x2026, 0x2020, 0x2021, 0x02C6, 0x2030,
                0x0160, 0x2039, 0x0152, 0x017D, 0x2018, 0x2019, 0x201C, 0x201D, 0x2022,
                0x2013, 0x2014, 0x02DC, 0x2122, 0x0161, 0x203A, 0x0153, 0x017E, 0x0178])"

definition demo_GetWindowRect :: "nat \<Rightarrow> hwnd \<Rightarrow> (int \<times> int \<times> int \<times> int) option" where
  "demo_GetWindowRect n h =
     (if h = 101 then (if n < 2 then Some (10, 20, 810, 620) else Some (10, 20, 650, 500))
      else None)"

definition demo_grab :: "nat \<Rightarrow> rect \<Rightarrow> image option" where
  "demo_grab n r =
     Some \<lparr>shape0 = nat (rect_height r), shape1 = nat (rect_width r), shape2 = 4\<rparr>"

definition demo_env :: env where
  "demo_env =
     \<lparr>platform = Win32, SCRIPT_DIR = py ''C:/app'', py_float = demo_float,
      float_str = demo_float_str, str_lower = demo_lower, Path = (\<lambda>p. p),
      resolve = (\<lambda>p. Inr p), joinpath = (\<lambda>d f. d @ py ''/'' @ f),
      now_stamp = py ''20240101_120000'', config_writable = True, encodable = cp1252,
      EnumWindows = [(101, True, py ''Notepad''), (102, False, py ''Hidden''), (103, True, [])],
      GetWindowRect = demo_GetWindowRect,
      monitors1 = \<lparr>rect_left = 0, rect_top = 0, rect_width = 1920, rect_height = 1080\<rparr>,
      grab = demo_grab, cvt_channels = (\<lambda>n. n = 3 \<or> n = 4),
      encoder_opens = (\<lambda>fourcc filename rate frameSize. True),
      sleep_max = 9223372036\<rparr>"

definition demo_state :: state where
  "demo_state =
     \<lparr>recording = False, selected_window = None, output_folder = py ''C:/app'',
      path_entry = py ''C:/videos'', fps_entry = py ''30.0'', interval_entry = py ''2.0'',
      filename_entry = py ''clip'', window_combo = py ''Notepad'', start_button = normal,
      stop_button = disabled, window_combo_state = readonly, refresh_button = normal,
      CONFIG_FILE = None, trace = []\<rparr>"

text \<open>The same host with no codec that opens the sink.\<close>

definition no_codec_env :: env where
  "no_codec_env = demo_env\<lparr>encoder_opens := (\<lambda>fourcc filename rate frameSize. False)\<rparr>"

text \<open>The same host where the window 101 is gone from tick 2 on: the geometry query
  raises.\<close>

definition closing_env :: env where
  "closing_env =
     demo_env\<lparr>GetWindowRect :=
       (\<lambda>n h. if h = 101 \<and> n < 2 then Some (10, 20, 810, 620) else None)\<rparr>"

text \<open>A host without window enumeration.\<close>

definition linux_env :: env where
  "linux_env = demo_env\<lparr>platform := Linux, EnumWindows := []\<rparr>"

subsection \<open>The invariant of a session\<close>

text \<open>
  What holds of the shared state and the task at every moment of a session started
  from the state \<open>s0\<close> with closure \<open>c\<close>: before the encoder exists nothing has been
  constructed or written; afterwards the width and height are those of the frame
  grabbed at tick 0, every encoder was constructed with the closure's path and frame
  rate and that size, and every frame written has that size.
\<close>

definition session_inv :: "env \<Rightarrow> closure \<Rightarrow> state \<Rightarrow> state \<times> thread \<Rightarrow> bool" where
  "session_inv e c s0 st =
     (case st of (s, t) \<Rightarrow>
        selected_window s = selected_window s0 \<and>
        (case locals_of t of
           None \<Rightarrow> frame_sizes (trace s) = [] \<and> encoder_calls (trace s) = []
         | Some l \<Rightarrow>
             (\<exists>mon frame. determine_region (get_window_rect e 0) e s0 = Region mon \<and>
                 grab e 0 mon = Some frame \<and> width l = shape1 frame \<and> height l = shape0 frame) \<and>
             vw_fps (out l) = t_fps c \<and>
             vw_filename (out l) = t_save_file c \<and>
             vw_frameSize (out l) = (width l, height l) \<and>
             list_all (\<lambda>img. shape1 img = width l \<and> shape0 img = height l) (frames (out l)) \<and>
             list_all (\<lambda>sz. sz = (width l, height l)) (frame_sizes (trace s)) \<and>
             encoder_calls (trace s) \<noteq> [] \<and>
             list_all (\<lambda>(fourcc, filename, rate, w, h).
                 filename = t_save_file c \<and> rate = t_fps c \<and> w = width l \<and> h = height l)
               (encoder_calls (trace s))))"


subsection \<open>Sessions\<close>

text \<open>A session: \<^verbatim>\<open>start_recording\<close>, then the task it spawned and the stop command
  under a schedule. \<^term>\<open>None\<close> when \<^verbatim>\<open>start_recording\<close> spawns no task.\<close>

definition session :: "env \<Rightarrow> state \<Rightarrow> event list \<Rightarrow> (state \<times> thread) option" where
  "session e s evs =
     (case start_recording e s of
        (s1, None) \<Rightarrow> None
      | (s1, Some c) \<Rightarrow> Some (run e c evs (s1, Spawned)))"

fun crashed_with :: "thread \<Rightarrow> exn option" where
  "crashed_with (Crashed x lo) = Some x"
| "crashed_with t = None"

text \<open>The steps the task still has to make once the flag is cleared.\<close>

fun steps_owed :: "thread \<Rightarrow> nat" where
  "steps_owed (Running ph l) = steps_left ph"
| "steps_owed Spawned = 3"
| "steps_owed t = 0"

text \<open>
  What holds from the moment the flag is cleared while the task stands at phase \<open>ph0\<close>
  of the loop in state \<open>s0\<close>: the flag stays cleared, and the frames, sleeps and
  release of the rest of the run are bounded by what \<open>ph0\<close> leaves to do.
\<close>

definition after_stop :: "phase \<Rightarrow> state \<Rightarrow> state \<times> thread \<Rightarrow> bool" where
  "after_stop ph0 s0 st =
     (case st of (s, t) \<Rightarrow>
        \<not> recording s \<and>
        length (frame_sizes (trace s)) \<le> length (frame_sizes (trace s0)) + frames_left ph0 \<and>
        sleeps (trace s) \<le> sleeps (trace s0) + sleeps_left ph0 \<and>
        (case t of
           Running ph l \<Rightarrow>
             steps_left ph \<le> steps_left ph0 \<and>
             releases (trace s) = releases (trace s0) \<and>
             length (frame_sizes (trace s)) + frames_left ph
               \<le> length (frame_sizes (trace s0)) + frames_left ph0 \<and>
             sleeps (trace s) + sleeps_left ph \<le> sleeps (trace s0) + sleeps_left ph0
         | Done l \<Rightarrow> \<not> isOpened (out l) \<and> releases (trace s) = Suc (releases (trace s0))
         | Crashed x lo \<Rightarrow> ph0 = Body \<or> ph0 = Sleeping
         | Spawned \<Rightarrow> False
         | Returned \<Rightarrow> False))"

text \<open>The concrete host where the window 101 is listed but its geometry query raises
  from the start.\<close>

definition gone_env :: env where
  "gone_env = demo_env\<lparr>GetWindowRect := (\<lambda>n h. None)\<rparr>"

section \<open>Properties of the configuration store\<close>

subsection \<open>Newlines, stripping and splitting\<close>

lemma read_newlines_Cons: "c \<noteq> CR \<Longrightarrow> read_newlines (c # x) = c # read_newlines x"
  by (cases x) auto

lemma read_write_newlines: "CR \<notin> set t \<Longrightarrow> read_newlines (write_newlines p t) = t"
  by (induction t) (auto simp: read_newlines_Cons)

lemma dropWhile_same_length:
  assumes "length (dropWhile P xs) = length xs"
  shows "dropWhile P xs = xs"
proof -
  have "length (takeWhile P xs) + length (dropWhile P xs) = length xs"
    by (metis length_append takeWhile_dropWhile_id)
  with assms have "takeWhile P xs = []" by simp
  then show ?thesis by (metis append_Nil takeWhile_dropWhile_id)
qed

lemma strip_fixed_iff:
  "strip s = s \<longleftrightarrow> s = [] \<or> (\<not> isspace (hd s) \<and> \<not> isspace (last s))"
proof
  assume fx: "strip s = s"
  let ?d = "dropWhile isspace s"
  have "length s = length (dropWhile isspace (rev ?d))"
    using fx by (metis length_rev strip_def)
  moreover have "length (dropWhile isspace (rev ?d)) \<le> length ?d"
    by (metis length_dropWhile_le length_rev)
  moreover have "length ?d \<le> length s" by (rule length_dropWhile_le)
  ultimately have "length ?d = length s" by simp
  then have d: "?d = s" by (rule dropWhile_same_length)
  with fx have "rev (dropWhile isspace (rev s)) = s" by (simp add: strip_def)
  then have r: "dropWhile isspace (rev s) = rev s" by (metis rev_rev_ident)
  show "s = [] \<or> (\<not> isspace (hd s) \<and> \<not> isspace (last s))"
  proof (cases "s = []")
    case False
    with d have "\<not> isspace (hd s)" by (simp add: dropWhile_eq_self_iff)
    moreover from r False have "\<not> isspace (last s)"
      by (simp add: dropWhile_eq_self_iff hd_rev)
    ultimately show ?thesis by simp
  qed simp
next
  assume "s = [] \<or> (\<not> isspace (hd s) \<and> \<not> isspace (last s))"
  then show "strip s = s"
  proof
    assume "s = []" then show ?thesis by (simp add: strip_def)
  next
    assume a: "\<not> isspace (hd s) \<and> \<not> isspace (last s)"
    show ?thesis
    proof (cases "s = []")
      case False
      with a have "dropWhile isspace s = s" "dropWhile isspace (rev s) = rev s"
        by (simp_all add: dropWhile_eq_self_iff hd_rev)
      then show ?thesis by (simp add: strip_def)
    qed (simp add: strip_def)
  qed
qed

lemma split_char_no_sep: "sep \<notin> set a \<Longrightarrow> split_char sep a = [a]"
  by (induction a) auto

lemma split_char_append: "sep \<notin> set a \<Longrightarrow> split_char sep (a @ sep # b) = a # split_char sep b"
  by (induction a) auto

lemma config_lines:
  assumes "LF \<notin> set p" "LF \<notin> set fs" "LF \<notin> set ivs" "LF \<notin> set w"
  shows "split_char LF (py ''path='' @ p @ [LF] @ py ''fps='' @ fs @ [LF] @ py ''interval='' @ ivs
             @ [LF] @ py ''window='' @ w)
     = [py ''path='' @ p, py ''fps='' @ fs, py ''interval='' @ ivs, py ''window='' @ w]"
proof -
  have n1: "LF \<notin> set (py ''path='' @ p)" using assms by (simp add: LF_def py_def)
  have n2: "LF \<notin> set (py ''fps='' @ fs)" using assms by (simp add: LF_def py_def)
  have n3: "LF \<notin> set (py ''interval='' @ ivs)" using assms by (simp add: LF_def py_def)
  have n4: "LF \<notin> set (py ''window='' @ w)" using assms by (simp add: LF_def py_def)
  have "split_char LF ((py ''path='' @ p) @ LF # (py ''fps='' @ fs) @ LF # (py ''interval='' @ ivs)
            @ LF # (py ''window='' @ w))
     = [py ''path='' @ p, py ''fps='' @ fs, py ''interval='' @ ivs, py ''window='' @ w]"
    by (simp only: split_char_append[OF n1] split_char_append[OF n2] split_char_append[OF n3]
        split_char_no_sep[OF n4])
  then show ?thesis by simp
qed

lemma config_text_strip:
  assumes "strip w = w"
  shows "strip (py ''path='' @ p @ [LF] @ py ''fps='' @ fs @ [LF] @ py ''interval='' @ ivs
             @ [LF] @ py ''window='' @ w)
     = py ''path='' @ p @ [LF] @ py ''fps='' @ fs @ [LF] @ py ''interval='' @ ivs
             @ [LF] @ py ''window='' @ w"
proof -
  let ?t = "py ''path='' @ p @ [LF] @ py ''fps='' @ fs @ [LF] @ py ''interval='' @ ivs
             @ [LF] @ py ''window='' @ w"
  have h: "\<not> isspace (hd ?t)" by (simp add: isspace_def py_def)
  have "\<not> isspace (last ?t)"
  proof (cases "w = []")
    case True then show ?thesis by (simp add: isspace_def py_def)
  next
    case False
    with assms have "\<not> isspace (last w)" by (simp add: strip_fixed_iff)
    with False show ?thesis by simp
  qed
  moreover have "?t \<noteq> []" by (simp add: py_def)
  ultimately show ?thesis using h by (simp only: strip_fixed_iff) simp
qed

lemma parse_config_lines:
  assumes "strip p = p" "strip fs = fs" "strip ivs = ivs" "strip w = w"
  shows "parse_lines [py ''path='' @ p, py ''fps='' @ fs, py ''interval='' @ ivs, py ''window='' @ w]
           Map.empty
     = [py ''path'' \<mapsto> p, py ''fps'' \<mapsto> fs, py ''interval'' \<mapsto> ivs, py ''window'' \<mapsto> w]"
proof -
  have k: "strip [112, 97, 116, 104] = [112, 97, 116, 104]" "strip [102, 112, 115] = [102, 112, 115]"
    "strip [105, 110, 116, 101, 114, 118, 97, 108] = [105, 110, 116, 101, 114, 118, 97, 108]"
    "strip [119, 105, 110, 100, 111, 119] = [119, 105, 110, 100, 111, 119]"
    by (simp_all add: strip_def isspace_def)
  show ?thesis using assms by (simp add: split_eq1_def py_def EQ_def k)
qed

lemma save_config_ok:
  assumes "save_config e old path fps interval window = (None, file)"
  shows "file = Some (write_newlines (platform e) (config_text e path fps interval window))"
  using assms by (simp add: save_config_def Path_write_text_def split: if_splits)

section \<open>Properties of the recorder\<close>

subsection \<open>Traces and the invariant\<close>

lemma frame_sizes_append [simp]: "frame_sizes (a @ b) = frame_sizes a @ frame_sizes b"
  by (simp add: frame_sizes_def)

lemma encoder_calls_append [simp]: "encoder_calls (a @ b) = encoder_calls a @ encoder_calls b"
  by (simp add: encoder_calls_def)

lemma frame_sizes_Nil [simp]: "frame_sizes [] = []"
  by (simp add: frame_sizes_def)

lemma encoder_calls_Nil [simp]: "encoder_calls [] = []"
  by (simp add: encoder_calls_def)

lemma frame_sizes_Cons [simp]: "frame_sizes (x # tr) = written x @ frame_sizes tr"
  by (simp add: frame_sizes_def)

lemma encoder_calls_Cons [simp]: "encoder_calls (x # tr) = encoder_call x @ encoder_calls tr"
  by (simp add: encoder_calls_def)

lemma emit_fields [simp]:
  "trace (emit s effs) = trace s @ effs"
  "selected_window (emit s effs) = selected_window s"
  "recording (emit s effs) = recording s"
  by (simp_all add: emit_def)

lemma enable_controls_fields [simp]:
  "trace (enable_controls s) = trace s"
  "selected_window (enable_controls s) = selected_window s"
  "recording (enable_controls s) = recording s"
  by (simp_all add: enable_controls_def)

lemma determine_region_cong:
  "selected_window s = selected_window s0 \<Longrightarrow> determine_region q e s = determine_region q e s0"
  by (simp add: determine_region_def)

lemma normalize_size:
  "normalize e img0 w h = Inr img \<Longrightarrow> shape1 img = w \<and> shape0 img = h"
  by (auto simp: normalize_def cvtColor_BGRA2BGR_def resize_def split: if_splits sum.splits)

lemma open_encoder_writer:
  "open_encoder e f r sz = (wr, calls) \<Longrightarrow>
     vw_fps wr = r \<and> vw_filename wr = f \<and> vw_frameSize wr = sz \<and> frames wr = []"
  by (auto simp: open_encoder_def VideoWriter_def Let_def split: if_splits)

lemma open_encoder_calls:
  "open_encoder e f r sz = (wr, calls) \<Longrightarrow>
     frame_sizes calls = [] \<and> encoder_calls calls \<noteq> [] \<and>
     list_all (\<lambda>(fourcc, filename, rate, w, h). filename = f \<and> rate = r \<and> w = fst sz \<and> h = snd sz)
       (encoder_calls calls)"
  by (auto simp: open_encoder_def Let_def split: if_splits)

lemma record_init_inv:
  assumes "session_inv e c s0 (s, Spawned)"
  shows "session_inv e c s0 (record_init (get_window_rect e 0) e s c)"
proof -
  from assms have sel: "selected_window s = selected_window s0"
    and fs: "frame_sizes (trace s) = []" and ec: "encoder_calls (trace s) = []"
    by (simp_all add: session_inv_def)
  note dr = determine_region_cong[OF sel, of "get_window_rect e 0" e]
  show ?thesis
  proof (cases "determine_region (get_window_rect e 0) e s0")
    case (Raised x)
    then show ?thesis using sel fs ec by (simp add: record_init_def dr session_inv_def)
  next
    case NoRect
    then show ?thesis using sel fs ec by (simp add: record_init_def dr session_inv_def)
  next
    case (Region mon)
    show ?thesis
    proof (cases "grab e 0 mon")
      case None
      then show ?thesis using Region sel fs ec by (simp add: record_init_def dr session_inv_def)
    next
      case (Some frame)
      obtain wr calls where oe: "open_encoder e (t_save_file c) (t_fps c) (shape1 frame, shape0 frame) = (wr, calls)"
        by (cases "open_encoder e (t_save_file c) (t_fps c) (shape1 frame, shape0 frame)")
      from open_encoder_writer[OF oe] open_encoder_calls[OF oe]
      show ?thesis using Region Some sel fs ec oe
        by (simp add: record_init_def dr session_inv_def Let_def)
    qed
  qed
qed

lemma loop_body_inv:
  assumes "session_inv e c s0 (s, Running ph l)"
  shows "session_inv e c s0 (loop_body q e s l)"
proof (cases "update_monitor q e s (monitor l)")
  case (Inl x)
  then show ?thesis using assms by (simp add: loop_body_def session_inv_def)
next
  case (Inr mon)
  show ?thesis
  proof (cases "grab e (Suc (tick l)) mon")
    case None
    then show ?thesis using assms Inr by (simp add: loop_body_def session_inv_def)
  next
    case (Some img0)
    show ?thesis
    proof (cases "normalize e img0 (width l) (height l)")
      case (Inl x)
      then show ?thesis using assms Inr Some by (simp add: loop_body_def session_inv_def)
    next
      case (Inr img)
      from normalize_size[OF Inr] show ?thesis
        using assms \<open>update_monitor q e s (monitor l) = Inr mon\<close> Some Inr
        by (simp add: loop_body_def session_inv_def writer_write_def)
    qed
  qed
qed

lemma finish_inv:
  assumes "session_inv e c s0 (s, Running ph l)"
  shows "session_inv e c s0 (finish s c l)"
  using assms by (simp add: finish_def session_inv_def writer_release_def)

lemma thread_step_inv:
  assumes "session_inv e c s0 (s, t)"
  shows "session_inv e c s0 (thread_step e c s t)"
proof (cases t)
  case Spawned
  with assms show ?thesis by (simp add: record_init_inv)
next
  case (Running ph l)
  show ?thesis
  proof (cases ph)
    case Top
    with assms Running show ?thesis by (simp add: session_inv_def)
  next
    case Body
    with assms Running show ?thesis by (simp add: loop_body_inv)
  next
    case Sleeping
    with assms Running show ?thesis by (simp add: session_inv_def split: option.splits)
  next
    case Finishing
    with assms Running show ?thesis by (simp add: finish_inv)
  qed
next
  case (Done l)
  with assms show ?thesis by simp
next
  case Returned
  with assms show ?thesis by simp
next
  case (Crashed x lo)
  with assms show ?thesis by simp
qed

lemma sys_step_inv:
  assumes "session_inv e c s0 st"
  shows "session_inv e c s0 (sys_step e c st ev)"
proof (cases st)
  case (Pair s t)
  show ?thesis
  proof (cases ev)
    case task_step
    with assms Pair show ?thesis by (simp add: thread_step_inv)
  next
    case ui_stop
    with assms Pair show ?thesis
      by (simp add: session_inv_def stop_recording_def split: option.splits)
  qed
qed

lemma run_snoc: "run e c (evs @ [ev]) st = sys_step e c (run e c evs st) ev"
  by (simp add: run_def)

lemma run_inv:
  assumes "session_inv e c s0 st"
  shows "session_inv e c s0 (run e c evs st)"
proof (induction evs rule: rev_induct)
  case Nil
  from assms show ?case by (simp add: run_def)
next
  case (snoc ev evs)
  then show ?case by (simp only: run_snoc sys_step_inv)
qed


subsection \<open>After the stop command\<close>

lemma sleeps_append [simp]: "sleeps (a @ b) = sleeps a + sleeps b"
  by (simp add: sleeps_def)

lemma releases_append [simp]: "releases (a @ b) = releases a + releases b"
  by (simp add: releases_def)

lemma loop_body_cases:
  obtains (crash) x lo tr where "loop_body q e s l = (emit s tr, Crashed x lo)" "frame_sizes tr = []" "sleeps tr = 0"
  | (ok) mon img where "loop_body q e s l = (emit s [grab_call mon, write_frame img],
       Running Sleeping (l\<lparr>monitor := mon, out := writer_write (out l) img\<rparr>))"
proof (cases "update_monitor q e s (monitor l)")
  case (Inl x)
  then have "loop_body q e s l = (emit s [], Crashed x (Some l))"
    by (simp add: loop_body_def emit_def)
  then show ?thesis by (rule crash) (simp_all add: sleeps_def)
next
  case (Inr mon)
  show ?thesis
  proof (cases "grab e (Suc (tick l)) mon")
    case None
    with Inr have "loop_body q e s l = (emit s [grab_call mon], Crashed ScreenShotError (Some (l\<lparr>monitor := mon\<rparr>)))"
      by (simp add: loop_body_def)
    then show ?thesis by (rule crash) (simp_all add: sleeps_def frame_sizes_def)
  next
    case (Some img0)
    show ?thesis
    proof (cases "normalize e img0 (width l) (height l)")
      case (Inl x)
      with Inr Some have "loop_body q e s l = (emit s [grab_call mon], Crashed x (Some (l\<lparr>monitor := mon\<rparr>)))"
        by (simp add: loop_body_def)
      then show ?thesis by (rule crash) (simp_all add: sleeps_def frame_sizes_def)
    next
      case (Inr img)
      with \<open>update_monitor q e s (monitor l) = Inr mon\<close> Some show ?thesis
        by (intro ok[of mon img]) (simp add: loop_body_def)
    qed
  qed
qed

lemma thread_step_after_stop:
  assumes "after_stop ph0 s0 (s, t)"
  shows "after_stop ph0 s0 (thread_step e c s t)"
proof (cases t)
  case (Running ph l)
  show ?thesis
  proof (cases ph)
    case Top
    with assms Running show ?thesis by (simp add: after_stop_def)
  next
    case Body
    show ?thesis
    proof (cases rule: loop_body_cases[of "get_window_rect e (Suc (tick l))" e s l])
      case (crash x lo tr)
      with assms Running Body show ?thesis by (cases ph0) (simp_all add: after_stop_def)
    next
      case (ok mon img)
      with assms Running Body show ?thesis by (simp add: after_stop_def sleeps_def releases_def)
    qed
  next
    case Sleeping
    with assms Running show ?thesis
      by (cases ph0) (simp_all add: after_stop_def sleeps_def releases_def split: option.splits)
  next
    case Finishing
    with assms Running show ?thesis
      by (simp add: after_stop_def finish_def sleeps_def releases_def writer_release_def)
  qed
qed (use assms in \<open>auto simp: after_stop_def\<close>)

lemma sys_step_after_stop:
  assumes "after_stop ph0 s0 st"
  shows "after_stop ph0 s0 (sys_step e c st ev)"
proof (cases st)
  case (Pair s t)
  show ?thesis
  proof (cases ev)
    case task_step
    with assms Pair show ?thesis by (simp add: thread_step_after_stop)
  next
    case ui_stop
    with assms Pair show ?thesis
      by (simp add: after_stop_def stop_recording_def split: thread.splits)
  qed
qed

lemma run_after_stop:
  assumes "after_stop ph0 s0 st"
  shows "after_stop ph0 s0 (run e c evs st)"
proof (induction evs rule: rev_induct)
  case Nil
  from assms show ?case by (simp add: run_def)
next
  case (snoc ev evs)
  then show ?case by (simp only: run_snoc sys_step_after_stop)
qed

lemma thread_step_progress:
  assumes "\<not> recording s"
  shows "steps_owed (snd (thread_step e c s t)) \<le> steps_owed t - 1"
proof (cases t)
  case Spawned
  then show ?thesis
    by (simp add: record_init_def Let_def split: region.splits option.splits prod.splits)
next
  case (Running ph l)
  show ?thesis
  proof (cases ph)
    case Body
    show ?thesis
      by (cases rule: loop_body_cases[of "get_window_rect e (Suc (tick l))" e s l])
         (simp_all add: Running Body)
  qed (use assms Running in \<open>simp_all add: finish_def split: option.splits\<close>)
qed simp_all

lemma run_progress:
  assumes "after_stop ph0 s0 st"
  shows "steps_owed (snd (run e c evs st)) \<le> steps_owed (snd st) - task_steps evs"
proof (induction evs rule: rev_induct)
  case Nil
  show ?case by (simp add: run_def task_steps_def)
next
  case (snoc ev evs)
  obtain s t where st': "run e c evs st = (s, t)" by (cases "run e c evs st")
  from run_after_stop[OF assms, of e c evs] st' have nr: "\<not> recording s"
    by (simp add: after_stop_def)
  show ?case
  proof (cases ev)
    case task_step
    from thread_step_progress[OF nr, of e c t] snoc st' task_step show ?thesis
      by (simp add: run_snoc task_steps_def)
  next
    case ui_stop
    with snoc st' show ?thesis by (simp add: run_snoc task_steps_def)
  qed
qed


subsection \<open>Starting a session\<close>

text \<open>
  The definitions that a run on the concrete machine unfolds.
\<close>

lemmas model_defs = start_recording_def emit_def Let_def demo_state_def demo_env_def demo_float_def
  strip_def isspace_def endswith_def py_def EQ_def demo_lower_def cp1252_def Path_write_text_def
  get_window_list_def config_text_def
  save_config_def LF_def CR_def run_def record_init_def determine_region_def get_window_rect_def
  demo_GetWindowRect_def demo_grab_def open_encoder_def VideoWriter_def started_message_def truthy_def
  loop_body_def update_monitor_def normalize_def cvtColor_BGRA2BGR_def resize_def writer_write_def
  finish_def finished_message_def enable_controls_def writer_release_def stop_recording_def
  demo_float_str_def session_def no_codec_env_def closing_env_def linux_env_def gone_env_def
  errors_def sleeps_def releases_def task_steps_def grab_sizes_def

lemma start_recording_SomeD:
  assumes "start_recording e s = (s1, Some c)"
  shows "\<not> recording s" "py_float e (fps_entry s) = Some (t_fps c)"
    "py_float e (interval_entry s) = Some (t_interval c)"
    "\<not> le_zero (t_fps c)" "\<not> le_zero (t_interval c)" "recording s1"
    "selected_window s1 = find_window (window_combo s) (get_window_list e)"
    "\<exists>cfgtext. trace s1 = trace s @ [write_text cfgtext, thread_start]"
  using assms
  by (auto simp: start_recording_def Let_def emit_def
      split: if_splits option.splits sum.splits prod.splits)

lemma start_recording_inv:
  assumes "start_recording e s = (s1, Some c)" "trace s = []"
  shows "session_inv e c s1 (s1, Spawned)"
proof -
  from start_recording_SomeD(8)[OF assms(1)] assms(2)
  obtain cfgtext where "trace s1 = [write_text cfgtext, thread_start]" by auto
  then show ?thesis by (simp add: session_inv_def)
qed

lemma session_SomeD:
  assumes "session e s evs = Some (s2, t)"
  obtains s1 c where "start_recording e s = (s1, Some c)" "run e c evs (s1, Spawned) = (s2, t)"
  using assms by (auto simp: session_def split: prod.splits option.splits)

lemma session_inv_session:
  assumes "session e s evs = Some (s2, t)" "trace s = []"
  obtains s1 c where "start_recording e s = (s1, Some c)" "session_inv e c s1 (s2, t)"
proof -
  from assms(1) obtain s1 c where a: "start_recording e s = (s1, Some c)"
    and b: "run e c evs (s1, Spawned) = (s2, t)" by (rule session_SomeD)
  from run_inv[OF start_recording_inv[OF a assms(2)], of evs] b
  have "session_inv e c s1 (s2, t)" by simp
  with a show ?thesis by (rule that)
qed

lemma session_inv_fps:
  assumes "session_inv e c s0 (s, t)"
  shows "list_all (\<lambda>(fourcc, filename, rate, w, h). rate = t_fps c) (encoder_calls (trace s))"
    "\<forall>l. locals_of t = Some l \<longrightarrow> vw_fps (out l) = t_fps c"
  using assms by (auto simp: session_inv_def list_all_iff split: option.splits)

lemma record_init_region:
  assumes "determine_region query e s = Region mon"
  shows "errors (trace (fst (record_init query e s c))) = errors (trace s)"
  using assms
  by (simp add: record_init_def open_encoder_def Let_def errors_def split: option.splits prod.splits)

text \<open>When the preferred codec does not open the sink, the fallback is constructed
  with the same path, frame rate and size, and it is the writer the task keeps.\<close>

lemma open_encoder_fallback:
  assumes "\<not> encoder_opens e ''avc1'' f r (w, h)"
  shows "open_encoder e f r (w, h) =
           (VideoWriter e f ''mp4v'' r (w, h),
            [VideoWriter_call ''avc1'' f r w h, VideoWriter_call ''mp4v'' f r w h])"
  using assms by (simp add: open_encoder_def VideoWriter_def)

text \<open>What the stop command bounds, for every schedule after it: the frames, the
  sleeps, and the end of the task, released or ended by an exception of the step
  under way.\<close>

lemma after_stop_bounds:
  assumes "run e c evs (stop_recording s, Running ph l) = (s', t')"
  shows "\<not> recording s' \<and>
         length (frame_sizes (trace s')) \<le> length (frame_sizes (trace s)) + 1 \<and>
         sleeps (trace s') \<le> sleeps (trace s) + 1 \<and>
         (4 \<le> task_steps evs \<longrightarrow>
            (\<exists>l'. t' = Done l' \<and> \<not> isOpened (out l') \<and>
                  releases (trace s') = Suc (releases (trace s)))
            \<or> ((ph = Body \<or> ph = Sleeping) \<and> (\<exists>x lo. t' = Crashed x lo)))"
proof -
  have init: "after_stop ph (stop_recording s) (stop_recording s, Running ph l)"
    by (simp add: after_stop_def stop_recording_def)
  from run_after_stop[OF init, of e c evs] assms
  have inv: "after_stop ph (stop_recording s) (s', t')" by simp
  have tr: "trace (stop_recording s) = trace s" by (simp add: stop_recording_def)
  have fl: "frames_left ph \<le> 1" "sleeps_left ph \<le> 1" "steps_left ph \<le> 4" by (cases ph; simp)+
  from inv have a: "\<not> recording s'" by (simp add: after_stop_def)
  from inv fl have b: "length (frame_sizes (trace s')) \<le> length (frame_sizes (trace s)) + 1"
    by (simp add: after_stop_def tr)
  from inv fl have c: "sleeps (trace s') \<le> sleeps (trace s) + 1"
    by (simp add: after_stop_def tr)
  have d: "(\<exists>l'. t' = Done l' \<and> \<not> isOpened (out l') \<and>
                  releases (trace s') = Suc (releases (trace s)))
            \<or> ((ph = Body \<or> ph = Sleeping) \<and> (\<exists>x lo. t' = Crashed x lo))" if "4 \<le> task_steps evs"
  proof -
    from run_progress[OF init, of e c evs] assms that fl
    have z: "steps_owed t' = 0" by simp
    show ?thesis
    proof (cases t')
      case (Running ph' l')
      with z show ?thesis by (cases ph') simp_all
    qed (use inv in \<open>simp_all add: after_stop_def tr\<close>)
  qed
  from a b c d show ?thesis by blast
qed

section \<open>The claims\<close>

text \<open>
  C1. The frame rate given to the encoder does not depend on the sampling interval:
  two sessions started from the same state except for the interval entry, under any
  two schedules, construct every encoder with the same rate, the one parsed from the
  frame-rate entry, and the writer they hold has that rate. The interval only reaches
  \<^verbatim>\<open>time.sleep\<close>. The duration of the file is then its number of frames over that
  rate, whatever the interval and the time the recording took.
\<close>

theorem encoder_fps_independent_of_interval:
  assumes "trace s = []"
    and "session e s evs1 = Some (s1, t1)"
    and "session e (s\<lparr>interval_entry := iv\<rparr>) evs2 = Some (s2, t2)"
  shows "\<exists>rate. py_float e (fps_entry s) = Some rate \<and>
           list_all (\<lambda>(fourcc, filename, r, w, h). r = rate) (encoder_calls (trace s1)) \<and>
           list_all (\<lambda>(fourcc, filename, r, w, h). r = rate) (encoder_calls (trace s2)) \<and>
           (\<forall>l. locals_of t1 = Some l \<longrightarrow> vw_fps (out l) = rate) \<and>
           (\<forall>l. locals_of t2 = Some l \<longrightarrow> vw_fps (out l) = rate)"
proof -
  from assms(2) assms(1) obtain a1 c1 where
    st1: "start_recording e s = (a1, Some c1)" and inv1: "session_inv e c1 a1 (s1, t1)"
    by (rule session_inv_session)
  have "trace (s\<lparr>interval_entry := iv\<rparr>) = []" using assms(1) by simp
  with assms(3) obtain a2 c2 where
    st2: "start_recording e (s\<lparr>interval_entry := iv\<rparr>) = (a2, Some c2)"
    and inv2: "session_inv e c2 a2 (s2, t2)"
    by (rule session_inv_session)
  have r1: "py_float e (fps_entry s) = Some (t_fps c1)" by (rule start_recording_SomeD(2)[OF st1])
  from start_recording_SomeD(2)[OF st2] have "py_float e (fps_entry s) = Some (t_fps c2)" by simp
  with r1 have eq: "t_fps c2 = t_fps c1" by simp
  from session_inv_fps[OF inv1] session_inv_fps[OF inv2] r1 show ?thesis
    unfolding eq by blast
qed

theorem encoder_fps_independent_of_interval_witness:
  "\<exists>s1 t1 s2 t2.
     session demo_env demo_state
       [task_step, task_step, task_step, task_step, task_step, task_step, task_step] = Some (s1, t1) \<and>
     session demo_env (demo_state\<lparr>interval_entry := (py ''5.0'')\<rparr>)
       [task_step, task_step, task_step, task_step] = Some (s2, t2) \<and>
     sleeps (trace s1) = 2 \<and> sleeps (trace s2) = 1 \<and>
     sleep (Fin 2) \<in> set (trace s1) \<and> sleep (Fin 5) \<in> set (trace s2) \<and>
     py_float demo_env (fps_entry demo_state) = Some (Fin 30) \<and>
     list_all (\<lambda>(fourcc, filename, r, w, h). r = Fin 30) (encoder_calls (trace s1)) \<and>
     list_all (\<lambda>(fourcc, filename, r, w, h). r = Fin 30) (encoder_calls (trace s2)) \<and>
     map_option (\<lambda>l. vw_fps (out l)) (locals_of t1) = Some (Fin 30) \<and>
     map_option (\<lambda>l. vw_fps (out l)) (locals_of t2) = Some (Fin 30)"
proof -
  have "\<exists>s1 t1. session demo_env demo_state
       [task_step, task_step, task_step, task_step, task_step, task_step, task_step] = Some (s1, t1) \<and>
       sleeps (trace s1) = 2 \<and> sleep (Fin 2) \<in> set (trace s1) \<and> (\<exists>l. locals_of t1 = Some l)"
    by (simp add: model_defs)
  then obtain s1 t1 l1 where a: "session demo_env demo_state
       [task_step, task_step, task_step, task_step, task_step, task_step, task_step] = Some (s1, t1)"
    and a': "sleeps (trace s1) = 2" "sleep (Fin 2) \<in> set (trace s1)" "locals_of t1 = Some l1"
    by blast
  have "\<exists>s2 t2. session demo_env (demo_state\<lparr>interval_entry := (py ''5.0'')\<rparr>)
       [task_step, task_step, task_step, task_step] = Some (s2, t2) \<and>
       sleeps (trace s2) = 1 \<and> sleep (Fin 5) \<in> set (trace s2) \<and> (\<exists>l. locals_of t2 = Some l)"
    by (simp add: model_defs)
  then obtain s2 t2 l2 where b: "session demo_env (demo_state\<lparr>interval_entry := (py ''5.0'')\<rparr>)
       [task_step, task_step, task_step, task_step] = Some (s2, t2)"
    and b': "sleeps (trace s2) = 1" "sleep (Fin 5) \<in> set (trace s2)" "locals_of t2 = Some l2"
    by blast
  have tr: "trace demo_state = []" by (simp add: demo_state_def)
  have fl: "py_float demo_env (fps_entry demo_state) = Some (Fin 30)" by (simp add: model_defs)
  from encoder_fps_independent_of_interval [OF tr a b] fl a' b'
  have "list_all (\<lambda>(fourcc, filename, r, w, h). r = Fin 30) (encoder_calls (trace s1)) \<and>
     list_all (\<lambda>(fourcc, filename, r, w, h). r = Fin 30) (encoder_calls (trace s2)) \<and>
     map_option (\<lambda>l. vw_fps (out l)) (locals_of t1) = Some (Fin 30) \<and>
     map_option (\<lambda>l. vw_fps (out l)) (locals_of t2) = Some (Fin 30)"
    by auto
  with a b a' b' fl show ?thesis by blast
qed

text \<open>
  C2. When \<^verbatim>\<open>avc1\<close> does not open the sink, \<^verbatim>\<open>mp4v\<close> is tried with the same path,
  frame rate and size; that part holds. When neither opens, the code does not look
  at the second writer: on the host with no codec the task announces the recording,
  grabs and hands a frame to the closed writer, sleeps, and on stop announces that
  the timelapse was saved. No error is reported and sampling occurs.
\<close>

theorem both_encoders_fail_still_records:
  "map_option
     (\<lambda>(s, t). (encoder_calls (trace s), errors (trace s), frame_sizes (trace s),
        map_option (\<lambda>l. (isOpened (out l), frames (out l))) (locals_of t), last (trace s)))
     (session no_codec_env demo_state
        [task_step, task_step, task_step, task_step, ui_stop, task_step, task_step])
   = Some ([(''avc1'', (py ''C:/videos/clip.mp4''), Fin 30, 800, 600),
            (''mp4v'', (py ''C:/videos/clip.mp4''), Fin 30, 800, 600)],
           [], [(800, 600)], Some (False, []),
           showinfo (py ''Recording Finished'')
             ([0x2705] @ (py '' Timelapse saved to:'') @ [LF] @ (py ''C:/videos/clip.mp4'')))"
  by (simp add: model_defs)

text \<open>
  C3. Once the encoder exists, the width and height are those of the frame grabbed
  at tick 0; every encoder was constructed with that size, and every frame handed to
  \<^verbatim>\<open>out.write\<close>, under any schedule and whatever the window and the grabs do, has
  exactly that size.
\<close>

theorem frame_size_fixed:
  assumes "trace s = []"
    and "session e s evs = Some (s2, t)"
    and "locals_of t = Some l"
  shows "(\<exists>s1 c mon frame. start_recording e s = (s1, Some c) \<and>
            determine_region (get_window_rect e 0) e s1 = Region mon \<and>
            grab e 0 mon = Some frame \<and> width l = shape1 frame \<and> height l = shape0 frame) \<and>
         vw_frameSize (out l) = (width l, height l) \<and>
         list_all (\<lambda>(fourcc, filename, rate, w, h). w = width l \<and> h = height l)
           (encoder_calls (trace s2)) \<and>
         list_all (\<lambda>sz. sz = (width l, height l)) (frame_sizes (trace s2)) \<and>
         list_all (\<lambda>img. shape1 img = width l \<and> shape0 img = height l) (frames (out l))"
proof -
  from assms(2) assms(1) obtain s1 c where
    st: "start_recording e s = (s1, Some c)" and inv: "session_inv e c s1 (s2, t)"
    by (rule session_inv_session)
  from inv assms(3) have
    first: "\<exists>mon frame. determine_region (get_window_rect e 0) e s1 = Region mon \<and>
       grab e 0 mon = Some frame \<and> width l = shape1 frame \<and> height l = shape0 frame"
    and sz: "vw_frameSize (out l) = (width l, height l)"
    and fr: "list_all (\<lambda>img. shape1 img = width l \<and> shape0 img = height l) (frames (out l))"
    and wr: "list_all (\<lambda>sz. sz = (width l, height l)) (frame_sizes (trace s2))"
    and calls: "list_all (\<lambda>(fourcc, filename, rate, w, h).
                 filename = t_save_file c \<and> rate = t_fps c \<and> w = width l \<and> h = height l)
               (encoder_calls (trace s2))"
    by (simp_all add: session_inv_def)
  from calls have calls': "list_all (\<lambda>(fourcc, filename, rate, w, h). w = width l \<and> h = height l)
           (encoder_calls (trace s2))"
    by (auto simp: list_all_iff)
  from st first sz calls' wr fr show ?thesis by blast
qed

theorem frame_size_fixed_witness:
  "\<exists>s2 l. session demo_env demo_state
       [task_step, task_step, task_step, task_step, task_step, task_step, task_step, task_step,
        task_step, task_step, ui_stop, task_step, task_step] = Some (s2, Done l) \<and>
     grab_sizes (trace s2) = [(800, 600), (800, 600), (640, 480), (640, 480)] \<and>
     width l = 800 \<and> height l = 600 \<and>
     vw_frameSize (out l) = (width l, height l) \<and>
     length (frame_sizes (trace s2)) = 3 \<and>
     list_all (\<lambda>sz. sz = (width l, height l)) (frame_sizes (trace s2)) \<and>
     list_all (\<lambda>img. shape1 img = width l \<and> shape0 img = height l) (frames (out l))"
proof -
  have "\<exists>s2 l. session demo_env demo_state
       [task_step, task_step, task_step, task_step, task_step, task_step, task_step, task_step,
        task_step, task_step, ui_stop, task_step, task_step] = Some (s2, Done l) \<and>
     grab_sizes (trace s2) = [(800, 600), (800, 600), (640, 480), (640, 480)] \<and>
     width l = 800 \<and> height l = 600 \<and> length (frame_sizes (trace s2)) = 3"
    by (simp add: model_defs)
  then obtain s2 l where run: "session demo_env demo_state
       [task_step, task_step, task_step, task_step, task_step, task_step, task_step, task_step,
        task_step, task_step, ui_stop, task_step, task_step] = Some (s2, Done l)"
    and facts: "grab_sizes (trace s2) = [(800, 600), (800, 600), (640, 480), (640, 480)]"
      "width l = 800" "height l = 600" "length (frame_sizes (trace s2)) = 3"
    by auto
  have tr: "trace demo_state = []" by (simp add: demo_state_def)
  have lo: "locals_of (Done l) = Some l" by simp
  from frame_size_fixed [OF tr run lo] run facts show ?thesis by blast
qed

text \<open>
  C4. With a frame rate or an interval that \<^verbatim>\<open>float\<close> rejects, or that is not above
  zero, \<^verbatim>\<open>start_recording\<close> changes nothing but to show one error: no task is
  spawned, the configuration file is not written, no encoder is constructed, and the
  flag and the widgets are as before. (While a session runs it shows nothing at all,
  which is C10.)
\<close>

theorem start_invalid_parameters:
  assumes "py_float e (fps_entry s) = None \<or> py_float e (interval_entry s) = None
           \<or> (\<exists>r. py_float e (fps_entry s) = Some r \<and> le_zero r)
           \<or> (\<exists>i. py_float e (interval_entry s) = Some i \<and> le_zero i)"
  shows "start_recording e s =
           ((if recording s then s
             else s\<lparr>trace := trace s @
                    [showerror (py ''Error'')
                       (if py_float e (fps_entry s) = None \<or> py_float e (interval_entry s) = None
                        then (py ''Invalid numeric input'') else (py ''FPS and Interval must be > 0''))]\<rparr>),
            None)"
  using assms by (auto simp: start_recording_def emit_def Let_def split: option.splits)

theorem start_invalid_parameters_witness:
  "start_recording demo_env (demo_state\<lparr>fps_entry := (py ''0'')\<rparr>)
     = (demo_state\<lparr>fps_entry := (py ''0''), trace := [showerror (py ''Error'') (py ''FPS and Interval must be > 0'')]\<rparr>, None)
   \<and> start_recording demo_env (demo_state\<lparr>interval_entry := (py ''abc'')\<rparr>)
     = (demo_state\<lparr>interval_entry := (py ''abc''), trace := [showerror (py ''Error'') (py ''Invalid numeric input'')]\<rparr>, None)"
  using start_invalid_parameters [of demo_env "demo_state\<lparr>fps_entry := (py ''0'')\<rparr>"]
    start_invalid_parameters [of demo_env "demo_state\<lparr>interval_entry := (py ''abc'')\<rparr>"]
  by (simp add: demo_state_def demo_env_def demo_float_def strip_def isspace_def py_def)

text \<open>
  C5 as stated fails. On the concrete host, a selection \<open>Calculator\<close> that is in no
  window list resolves to no handle: the session starts, the task is spawned, nothing
  is reported and the whole display is captured. And when the listed window 101 has
  no geometry at the start, the task has already been spawned when the query raises,
  and nothing is reported.
\<close>

theorem start_failure_not_synchronous_counterexample:
  "find_window (py ''Calculator'') (get_window_list demo_env) = None \<and>
   map_option
     (\<lambda>(s, t). (recording s, selected_window s, errors (trace s), thread_start \<in> set (trace s),
        map_option monitor (locals_of t)))
     (session demo_env (demo_state\<lparr>window_combo := (py ''Calculator'')\<rparr>) [task_step])
   = Some (True, None, [], True, Some (monitors1 demo_env)) \<and>
   map_option
     (\<lambda>(s, t). (recording s, selected_window s, errors (trace s), thread_start \<in> set (trace s),
        crashed_with t))
     (session gone_env demo_state [task_step])
   = Some (True, Some 101, [], True, Some Win32Error)"
  by (simp add: model_defs)

text \<open>
  C5, amended. Resolving the selected window is not a start-time check of the code.
  \<^verbatim>\<open>start_recording\<close> never queries the geometry of a window: its result does not
  depend on \<^verbatim>\<open>GetWindowRect\<close>. Whenever it spawns a task it has reported nothing.
  With no session running and a frame rate and an interval that parse and are above
  zero, it reports nothing and takes as handle what the name gives in the window
  list, no handle when the name is not listed; and once the output path resolves and
  the configuration file is written, it sets the flag and spawns the task, whatever
  the lookup gave.
\<close>

theorem start_makes_no_region_check:
  "start_recording (e\<lparr>GetWindowRect := g\<rparr>) s = start_recording e s \<and>
   (snd (start_recording e s) \<noteq> None \<longrightarrow>
      errors (trace (fst (start_recording e s))) = errors (trace s)) \<and>
   (\<not> recording s \<and> py_float e (fps_entry s) = Some r \<and> py_float e (interval_entry s) = Some i \<and>
    \<not> le_zero r \<and> \<not> le_zero i \<longrightarrow>
      selected_window (fst (start_recording e s)) = find_window (window_combo s) (get_window_list e) \<and>
      errors (trace (fst (start_recording e s))) = errors (trace s) \<and>
      (\<forall>p file. resolve e (Path e (path_entry s)) = Inr p \<and>
           save_config e (CONFIG_FILE s) p r i (window_combo s) = (None, file) \<longrightarrow>
         (\<exists>c. snd (start_recording e s) = Some c) \<and>
         recording (fst (start_recording e s)) \<and>
         trace (fst (start_recording e s))
           = trace s @ [write_text (config_text e p r i (window_combo s)), thread_start]))"
proof -
  have a: "start_recording (e\<lparr>GetWindowRect := g\<rparr>) s = start_recording e s"
    by (simp add: start_recording_def get_window_list_def save_config_def Path_write_text_def
        config_text_def Let_def cong: option.case_cong sum.case_cong prod.case_cong if_cong)
  have b: "errors (trace (fst (start_recording e s))) = errors (trace s)"
    if "snd (start_recording e s) \<noteq> None"
  proof -
    from that obtain s1 c where st: "start_recording e s = (s1, Some c)"
      by (cases "start_recording e s") auto
    from start_recording_SomeD(8)[OF st] st show ?thesis by (auto simp: errors_def)
  qed
  have c: "selected_window (fst (start_recording e s)) = find_window (window_combo s) (get_window_list e) \<and>
      errors (trace (fst (start_recording e s))) = errors (trace s) \<and>
      (\<forall>p file. resolve e (Path e (path_entry s)) = Inr p \<and>
           save_config e (CONFIG_FILE s) p r i (window_combo s) = (None, file) \<longrightarrow>
         (\<exists>c. snd (start_recording e s) = Some c) \<and>
         recording (fst (start_recording e s)) \<and>
         trace (fst (start_recording e s))
           = trace s @ [write_text (config_text e p r i (window_combo s)), thread_start])"
    if "\<not> recording s" "py_float e (fps_entry s) = Some r" "py_float e (interval_entry s) = Some i"
      "\<not> le_zero r" "\<not> le_zero i"
    using that
    by (auto simp: start_recording_def Let_def emit_def errors_def
        split: sum.splits prod.splits option.splits)
  from a b c show ?thesis by blast
qed

theorem start_makes_no_region_check_witness:
  "start_recording (demo_env\<lparr>GetWindowRect := (\<lambda>n h. None)\<rparr>)
       (demo_state\<lparr>window_combo := py ''Calculator''\<rparr>)
     = start_recording demo_env (demo_state\<lparr>window_combo := py ''Calculator''\<rparr>) \<and>
   find_window (py ''Calculator'') (get_window_list demo_env) = None \<and>
   selected_window (fst (start_recording demo_env (demo_state\<lparr>window_combo := py ''Calculator''\<rparr>)))
     = None \<and>
   errors (trace (fst (start_recording demo_env (demo_state\<lparr>window_combo := py ''Calculator''\<rparr>))))
     = [] \<and>
   snd (start_recording demo_env (demo_state\<lparr>window_combo := py ''Calculator''\<rparr>)) \<noteq> None \<and>
   recording (fst (start_recording demo_env (demo_state\<lparr>window_combo := py ''Calculator''\<rparr>))) \<and>
   trace (fst (start_recording demo_env (demo_state\<lparr>window_combo := py ''Calculator''\<rparr>)))
     = [write_text (config_text demo_env (py ''C:/videos'') (Fin 30) (Fin 2) (py ''Calculator'')),
        thread_start]"
proof -
  let ?s = "demo_state\<lparr>window_combo := py ''Calculator''\<rparr>"
  have h: "\<not> recording ?s" "py_float demo_env (fps_entry ?s) = Some (Fin 30)"
    "py_float demo_env (interval_entry ?s) = Some (Fin 2)" "\<not> le_zero (Fin 30)" "\<not> le_zero (Fin 2)"
    by (simp_all add: model_defs)
  have p: "resolve demo_env (Path demo_env (path_entry ?s)) = Inr (py ''C:/videos'')"
    by (simp add: demo_env_def demo_state_def)
  have "\<exists>file. save_config demo_env (CONFIG_FILE ?s) (py ''C:/videos'') (Fin 30) (Fin 2) (window_combo ?s)
      = (None, file)"
    by (simp add: model_defs)
  then obtain stored where sv: "save_config demo_env (CONFIG_FILE ?s) (py ''C:/videos'') (Fin 30) (Fin 2)
      (window_combo ?s) = (None, stored)" by blast
  have fw: "find_window (py ''Calculator'') (get_window_list demo_env) = None"
    by (simp add: model_defs)
  have wc: "window_combo ?s = py ''Calculator''" "trace ?s = []" by (simp_all add: demo_state_def)
  from start_makes_no_region_check
    [where e = demo_env and g = "\<lambda>n h. None" and s = ?s and r = "Fin 30" and i = "Fin 2"] h p sv
  have "start_recording (demo_env\<lparr>GetWindowRect := (\<lambda>n h. None)\<rparr>) ?s = start_recording demo_env ?s"
    and "selected_window (fst (start_recording demo_env ?s))
           = find_window (window_combo ?s) (get_window_list demo_env)"
    and "errors (trace (fst (start_recording demo_env ?s))) = errors (trace ?s)"
    and "\<exists>c. snd (start_recording demo_env ?s) = Some c"
    and "recording (fst (start_recording demo_env ?s))"
    and "trace (fst (start_recording demo_env ?s))
           = trace ?s @ [write_text (config_text demo_env (py ''C:/videos'') (Fin 30) (Fin 2)
                (window_combo ?s)), thread_start]"
    by blast+
  then show ?thesis using fw wc by (auto simp: errors_def)
qed

text \<open>
  C6 as stated fails. On the host without window enumeration, a start with the
  selection \<open>Notepad\<close> reports nothing and captures the 1920 by 1080 display; and the
  region code itself answers a non-empty window handle with the display.
\<close>

theorem window_capture_substitutes_display_counterexample:
  "window_combo demo_state = (py ''Notepad'') \<and>
   map_option
     (\<lambda>(s, t). (selected_window s, errors (trace s), grab_sizes (trace s),
        map_option monitor (locals_of t), crashed_with t))
     (session linux_env demo_state [task_step])
   = Some (None, [], [(1920, 1080)], Some (monitors1 linux_env), None) \<and>
   determine_region (get_window_rect linux_env 0) linux_env
     (demo_state\<lparr>selected_window := Some 101\<rparr>) = Region (monitors1 linux_env)"
  by (simp add: model_defs)

text \<open>
  C6, amended. Off Windows the window list offers \<open>Entire Screen\<close> only, every
  selection resolves to no handle, and the task captures the primary display for any
  selected handle, at the start and on every tick, without reporting an error.
\<close>

theorem no_window_support_captures_display:
  assumes "platform e \<noteq> Win32"
  shows "get_window_list e = [((py ''Entire Screen''), None)] \<and>
         find_window name (get_window_list e) = None \<and>
         determine_region query e s = Region (monitors1 e) \<and>
         update_monitor query e s mon = Inr mon \<and>
         errors (trace (fst (record_init query e s c))) = errors (trace s)"
proof -
  from assms have wl: "get_window_list e = [((py ''Entire Screen''), None)]"
    by (simp add: get_window_list_def)
  have fw: "find_window name (get_window_list e) = None" unfolding wl by simp
  from assms have dr: "determine_region query e s = Region (monitors1 e)"
    by (simp add: determine_region_def split: option.splits)
  from assms have um: "update_monitor query e s mon = Inr mon"
    by (simp add: update_monitor_def split: option.splits)
  from wl fw dr um record_init_region[OF dr] show ?thesis by simp
qed

theorem no_window_support_captures_display_witness:
  "get_window_list linux_env = [((py ''Entire Screen''), None)] \<and>
   find_window (py ''Notepad'') (get_window_list linux_env) = None \<and>
   determine_region (get_window_rect linux_env 0) linux_env
     (demo_state\<lparr>selected_window := Some 101\<rparr>) = Region (monitors1 linux_env) \<and>
   update_monitor (get_window_rect linux_env 1) linux_env (demo_state\<lparr>selected_window := Some 101\<rparr>)
     (monitors1 linux_env) = Inr (monitors1 linux_env) \<and>
   errors (trace (fst (record_init (get_window_rect linux_env 0) linux_env
     (demo_state\<lparr>selected_window := Some 101\<rparr>)
     \<lparr>t_fps = Fin 30, t_interval = Fin 2, t_save_file = (py ''clip.mp4''), t_window_name = (py ''Notepad'')\<rparr>)))
     = errors (trace (demo_state\<lparr>selected_window := Some 101\<rparr>))"
proof -
  have "platform linux_env \<noteq> Win32" by (simp add: linux_env_def demo_env_def)
  from no_window_support_captures_display [OF this] show ?thesis by blast
qed

text \<open>
  C7. The claim fails where the window is gone. On the host where the window 101 is
  closed from tick 2 on, the geometry query of the second pass raises, and nothing
  catches it: the task ends there with the writer still open, nothing is released
  and nothing is reported, also after the stop command, and the controls are not
  given back.
\<close>

theorem window_gone_crashes_task:
  "map_option
     (\<lambda>(s, t). (crashed_with t, map_option (\<lambda>l. isOpened (out l)) (locals_of t),
        errors (trace s), releases (trace s), length (frame_sizes (trace s)), start_button s))
     (session closing_env demo_state
        [task_step, task_step, task_step, task_step, task_step, task_step,
         ui_stop, task_step, task_step, task_step])
   = Some (Some Win32Error, Some True, [], 0, 1, disabled)"
  by (simp add: model_defs)

text \<open>
  C8 as stated fails. On the concrete host, a window title with a carriage return in
  it has no \<^verbatim>\<open>=\<close> and no line feed and is unchanged by stripping, and the file is
  written; but reading turns the carriage return into a line feed, and the title
  loaded is cut there. And a title with the code point U+0081, which cp1252 lacks,
  makes \<^verbatim>\<open>write_text\<close> raise, leaving an empty file, from which the defaults load.
\<close>

theorem config_roundtrip_counterexample:
  "EQ \<notin> set (py ''a'' @ [CR] @ py ''b'') \<and> LF \<notin> set (py ''a'' @ [CR] @ py ''b'') \<and>
   strip (py ''a'' @ [CR] @ py ''b'') = py ''a'' @ [CR] @ py ''b'' \<and>
   fst (save_config demo_env None (py ''C:/videos'') (Fin 30) (Fin 2) (py ''a'' @ [CR] @ py ''b''))
     = None \<and>
   load_config demo_env
     (snd (save_config demo_env None (py ''C:/videos'') (Fin 30) (Fin 2) (py ''a'' @ [CR] @ py ''b'')))
     = \<lparr>cfg_path = py ''C:/videos'', cfg_fps = Fin 30, cfg_interval = Fin 2, cfg_window = py ''a''\<rparr> \<and>
   EQ \<notin> set [0x81] \<and> LF \<notin> set [0x81] \<and> strip [0x81] = [0x81] \<and>
   save_config demo_env None (py ''C:/videos'') (Fin 30) (Fin 2) [0x81]
     = (Some UnicodeEncodeError, Some []) \<and>
   load_config demo_env (Some []) = defaults demo_env"
  by (simp add: model_defs load_config_def split_eq1_def defaults_def)

text \<open>
  C8, amended. When the save succeeds, loading at once gives the configuration back:
  for every configuration whose four values, as written to the file, hold no line
  feed and no carriage return and are unchanged by stripping, where \<^verbatim>\<open>float\<close> reads
  back what formatting the frame rate and the interval wrote and the path is a
  normalised path. An \<^verbatim>\<open>=\<close> inside a value does no harm, since a line is split at its
  first \<^verbatim>\<open>=\<close> only.
\<close>

theorem config_roundtrip:
  assumes ok: "\<forall>v \<in> {cfg_path c, float_str e (cfg_fps c), float_str e (cfg_interval c), cfg_window c}.
             LF \<notin> set v \<and> CR \<notin> set v \<and> strip v = v"
    and saved: "save_config e old (cfg_path c) (cfg_fps c) (cfg_interval c) (cfg_window c) = (None, file)"
    and fps: "py_float e (float_str e (cfg_fps c)) = Some (cfg_fps c)"
    and interval: "py_float e (float_str e (cfg_interval c)) = Some (cfg_interval c)"
    and path: "Path e (cfg_path c) = cfg_path c"
  shows "load_config e file = c"
proof -
  let ?t = "config_text e (cfg_path c) (cfg_fps c) (cfg_interval c) (cfg_window c)"
  have stored: "file = Some (write_newlines (platform e) ?t)" by (rule save_config_ok[OF saved])
  have "CR \<notin> set ?t" using ok by (simp add: config_text_def CR_def LF_def py_def)
  then have rd: "read_newlines (write_newlines (platform e) ?t) = ?t"
    by (rule read_write_newlines)
  have st: "strip ?t = ?t" unfolding config_text_def by (rule config_text_strip) (use ok in simp)
  have ln: "split_char LF ?t = [py ''path='' @ cfg_path c, py ''fps='' @ float_str e (cfg_fps c),
      py ''interval='' @ float_str e (cfg_interval c), py ''window='' @ cfg_window c]"
    unfolding config_text_def by (rule config_lines) (use ok in simp_all)
  have ps: "parse_lines (split_char LF ?t) Map.empty = [py ''path'' \<mapsto> cfg_path c,
      py ''fps'' \<mapsto> float_str e (cfg_fps c), py ''interval'' \<mapsto> float_str e (cfg_interval c),
      py ''window'' \<mapsto> cfg_window c]"
    unfolding ln by (rule parse_config_lines) (use ok in simp_all)
  have neq: "py ''fps'' \<noteq> py ''window''" "py ''fps'' \<noteq> py ''interval''" "py ''interval'' \<noteq> py ''window''"
    "py ''path'' \<noteq> py ''window''" "py ''path'' \<noteq> py ''interval''" "py ''path'' \<noteq> py ''fps''"
    by (simp_all add: py_def)
  show ?thesis
    by (simp add: load_config_def stored rd st ps fps interval path neq neq[symmetric])
qed

theorem config_roundtrip_witness:
  "\<exists>file. save_config demo_env None (py ''C:/videos'') (Fin 30) (Fin 2) (py ''Notepad'') = (None, file) \<and>
     load_config demo_env file
       = \<lparr>cfg_path = py ''C:/videos'', cfg_fps = Fin 30, cfg_interval = Fin 2,
          cfg_window = py ''Notepad''\<rparr>"
proof -
  let ?c = "\<lparr>cfg_path = py ''C:/videos'', cfg_fps = Fin 30, cfg_interval = Fin 2,
               cfg_window = py ''Notepad''\<rparr>"
  have ok: "\<forall>v \<in> {cfg_path ?c, float_str demo_env (cfg_fps ?c),
                  float_str demo_env (cfg_interval ?c), cfg_window ?c}.
              LF \<notin> set v \<and> CR \<notin> set v \<and> strip v = v"
    by (simp add: demo_env_def demo_float_str_def strip_def isspace_def LF_def CR_def py_def)
  have "\<exists>file. save_config demo_env None (cfg_path ?c) (cfg_fps ?c) (cfg_interval ?c) (cfg_window ?c)
      = (None, file)"
    by (simp add: model_defs)
  then obtain stored where saved: "save_config demo_env None (cfg_path ?c) (cfg_fps ?c)
      (cfg_interval ?c) (cfg_window ?c) = (None, stored)" by blast
  have fps: "py_float demo_env (float_str demo_env (cfg_fps ?c)) = Some (cfg_fps ?c)"
    by (simp add: demo_env_def demo_float_str_def demo_float_def strip_def isspace_def py_def)
  have interval: "py_float demo_env (float_str demo_env (cfg_interval ?c)) = Some (cfg_interval ?c)"
    by (simp add: demo_env_def demo_float_str_def demo_float_def strip_def isspace_def py_def)
  have path: "Path demo_env (cfg_path ?c) = cfg_path ?c"
    by (simp add: demo_env_def)
  from config_roundtrip [of ?c demo_env None stored, OF ok saved fps interval path] saved
  show ?thesis by auto
qed

text \<open>
  C9. The claim fails where the step under way raises. An interval \<open>nan\<close> passes
  the test of line 144, since \<^verbatim>\<open>nan <= 0\<close> is false. On the concrete host, with the
  stop command given during the first grab-encode step, the task writes that frame
  and then \<^verbatim>\<open>time.sleep\<close> raises: the task never comes back to the top of the loop,
  the encoder is not released and stays open, and the controls are not given back.
\<close>

theorem stop_after_failed_sleep_leaves_encoder_open:
  "map_option
     (\<lambda>(s, t). (recording s, crashed_with t, map_option (\<lambda>l. isOpened (out l)) (locals_of t),
        releases (trace s), sleeps (trace s), length (frame_sizes (trace s)), errors (trace s),
        start_button s))
     (session demo_env (demo_state\<lparr>interval_entry := py ''nan''\<rparr>)
        [task_step, task_step, ui_stop, task_step, task_step, task_step, task_step, task_step])
   = Some (False, Some ValueError, Some True, 0, 0, 1, [], disabled)"
  by (simp add: model_defs)

text \<open>
  C10. While a session runs, \<^verbatim>\<open>start_recording\<close> returns at once: the state, with
  its flag, output folder, selected window, widgets, configuration file and trace, is
  unchanged and no task is spawned, whatever the entries hold.
\<close>

theorem start_while_running_noop:
  "recording s \<Longrightarrow> start_recording e s = (s, None)"
  by (simp add: start_recording_def)

theorem start_while_running_noop_witness:
  "start_recording demo_env (demo_state\<lparr>recording := True, fps_entry := (py ''abc'')\<rparr>)
     = (demo_state\<lparr>recording := True, fps_entry := (py ''abc'')\<rparr>, None)"
  using start_while_running_noop [of "demo_state\<lparr>recording := True, fps_entry := (py ''abc'')\<rparr>" demo_env]
  by (simp add: demo_state_def)

end
